theory Spec2Isabelle
  imports Complex_Main "HOL-Library.Multiset"
begin

section \<open>Data model of the tide service\<close>

text \<open>
  The service works on JavaScript numbers. Instants (\<open>time\<close>, milliseconds since the
  epoch) are modelled as \<open>int\<close>, heights (metres) as \<open>real\<close>: arithmetic is exact, so
  rounding of IEEE doubles is outside the model. The one place where the source can
  produce \<open>NaN\<close> from finite inputs (a division \<open>0 / 0\<close> in \<open>smoothData\<close>) is modelled
  explicitly as \<open>None\<close>.
\<close>

record TidePoint =
  time :: int
  height :: real

datatype tide_type = High | Low

record TideExtreme = TidePoint +
  type :: tide_type

record LocationConfig =
  name :: string
  latitude :: real
  longitude :: real
  timezone :: "string option"
  country :: "string option"
  region :: "string option"

record HarmonicConstituent =
  name :: string
  speed :: real
  amplitude :: real
  phase :: real

section \<open>The environment: clock, local time zone, random source\<close>

text \<open>
  \<open>new Date(2025, 0, 1).getTime()\<close> is local midnight of 1 January 2025; \<open>tza\<close> is the
  offset of local time from UTC (milliseconds) at that instant. Midnight UTC of that day
  is day 20089 of the epoch.
\<close>

definition REFERENCE_TIME :: "int \<Rightarrow> int" where
  "REFERENCE_TIME tza = 20089 * 86400000 - tza"

text \<open>
  \<open>new Date(t)\<close>: a time value beyond \<open>\<plusminus>8.64e15\<close> ms gives an invalid date, whose
  \<open>getDay()\<close> and \<open>getHours()\<close> are \<open>NaN\<close> (here \<open>None\<close>); every comparison with \<open>NaN\<close>
  is false. \<open>localTZA\<close> maps an instant to the offset of local time from UTC there.
\<close>

type_synonym Date = "int option"

definition newDate :: "int \<Rightarrow> Date" where
  "newDate t = (if \<bar>t\<bar> \<le> 8640000000000000 then Some t else None)"

definition getDay :: "(int \<Rightarrow> int) \<Rightarrow> Date \<Rightarrow> int option" where
  "getDay localTZA d =
     (case d of None \<Rightarrow> None
      | Some t \<Rightarrow> Some (((t + localTZA t) div 86400000 + 4) mod 7))"

definition getHours :: "(int \<Rightarrow> int) \<Rightarrow> Date \<Rightarrow> int option" where
  "getHours localTZA d =
     (case d of None \<Rightarrow> None
      | Some t \<Rightarrow> Some (((t + localTZA t) div 3600000) mod 24))"

section \<open>Signal synthesizer and sampler\<close>

definition getDefaultConstituents :: "HarmonicConstituent list" where
  "getDefaultConstituents =
     [\<lparr>name = ''M2'', speed = 28.984, amplitude = 0.28, phase = 220\<rparr>,
      \<lparr>name = ''S2'', speed = 30.000, amplitude = 0.12, phase = 250\<rparr>,
      \<lparr>name = ''N2'', speed = 28.440, amplitude = 0.06, phase = 200\<rparr>,
      \<lparr>name = ''K1'', speed = 15.041, amplitude = 0.08, phase = 150\<rparr>,
      \<lparr>name = ''O1'', speed = 13.943, amplitude = 0.05, phase = 130\<rparr>,
      \<lparr>name = ''Z0'', speed = 0.000, amplitude = 0.50, phase = 0\<rparr>]"

text \<open>The loop of \<open>calculateTideHeight\<close> over the constituents, \<open>h\<close> being the
  accumulator \<open>height\<close>.\<close>

fun sumConstituents :: "real \<Rightarrow> HarmonicConstituent list \<Rightarrow> real \<Rightarrow> real" where
  "sumConstituents hoursElapsed [] h = h"
| "sumConstituents hoursElapsed (constituent # rest) h =
     (if name constituent = ''Z0''
      then sumConstituents hoursElapsed rest (h + amplitude constituent)
      else
        let angle = (speed constituent * hoursElapsed + phase constituent) * (pi / 180)
        in sumConstituents hoursElapsed rest (h + amplitude constituent * cos angle))"

text \<open>\<open>random\<close> is the value \<open>Math.random()\<close> returns in this call.\<close>

definition calculateTideHeight ::
    "int \<Rightarrow> real \<Rightarrow> int \<Rightarrow> HarmonicConstituent list \<Rightarrow> real" where
  "calculateTideHeight tza random t constituents =
     (let hoursElapsed = real_of_int (t - REFERENCE_TIME tza) / (60 * 60 * 1000);
          h = sumConstituents hoursElapsed constituents 0;
          randomVariation = (random * 0.1) - 0.05
      in h + randomVariation)"

section \<open>Smoother\<close>

text \<open>The inner loop of \<open>smoothData\<close>: \<open>j\<close> runs from \<open>start\<close> to \<open>end\<close>; the state is
  the pair of \<open>sum\<close> (here \<open>acc\<close>) and \<open>count\<close>. The caller keeps \<open>0 \<le> start\<close> and
  \<open>end < length points\<close>, so every read is in range.\<close>

function sumWindow :: "TidePoint list \<Rightarrow> int \<Rightarrow> int \<Rightarrow> real \<times> nat \<Rightarrow> real \<times> nat" where
  "sumWindow points j e (acc, count') =
     (if j \<le> e
      then sumWindow points (j + 1) e (acc + height (points ! nat j), count' + 1)
      else (acc, count'))"
  by pat_completeness auto
termination
  by (relation "measure (\<lambda>(points, j, e, s). nat (e + 1 - j))") auto

declare sumWindow.simps [simp del]

text \<open>The outer loop. An empty window (negative \<open>windowSize\<close>) makes the source compute
  \<open>0 / 0 = NaN\<close> for the height; then every window of the call is empty and every height
  is \<open>NaN\<close>, which the result \<open>None\<close> stands for.\<close>

function smoothLoop ::
    "TidePoint list \<Rightarrow> int \<Rightarrow> nat \<Rightarrow> TidePoint list \<Rightarrow> TidePoint list option" where
  "smoothLoop points windowSize i smoothed =
     (if i < length points then
        let start = max 0 (int i - windowSize div 2);
            e = min (int (length points) - 1) (int i + windowSize div 2);
            (acc, count') = sumWindow points start e (0, 0)
        in if count' = 0 then None
           else smoothLoop points windowSize (Suc i)
                  (smoothed @ [\<lparr>time = time (points ! i), height = acc / real count'\<rparr>])
      else Some smoothed)"
  by pat_completeness auto
termination
  by (relation "measure (\<lambda>(points, w, i, s). length points - i)") auto

declare smoothLoop.simps [simp del]

definition smoothData :: "TidePoint list \<Rightarrow> int \<Rightarrow> TidePoint list option" where
  "smoothData points windowSize = smoothLoop points windowSize 0 []"

section \<open>Extremum detector\<close>

definition windowSize :: nat where
  "windowSize = 6"

text \<open>The inner loop of the candidate scan: \<open>j\<close> runs over the window around \<open>i\<close>; the
  state is the pair of flags \<open>isHigh\<close> and \<open>isLow\<close>.\<close>

function scanWindow :: "TidePoint list \<Rightarrow> nat \<Rightarrow> nat \<Rightarrow> bool \<times> bool \<Rightarrow> bool \<times> bool" where
  "scanWindow smoothedPoints i j (isHigh, isLow) =
     (if j \<le> i + windowSize then
        scanWindow smoothedPoints i (Suc j)
          (if j \<noteq> i then
             (if height (smoothedPoints ! j) \<ge> height (smoothedPoints ! i) then False else isHigh,
              if height (smoothedPoints ! j) \<le> height (smoothedPoints ! i) then False else isLow)
           else (isHigh, isLow))
      else (isHigh, isLow))"
  by pat_completeness auto
termination
  by (relation "measure (\<lambda>(sp, i, j, f). i + windowSize + 1 - j)") auto

declare scanWindow.simps [simp del]

text \<open>The outer loop of the candidate scan, from \<open>i = windowSize\<close> while
  \<open>i < smoothedPoints.length - windowSize\<close>.\<close>

function findCandidates :: "TidePoint list \<Rightarrow> nat \<Rightarrow> TideExtreme list \<Rightarrow> TideExtreme list" where
  "findCandidates smoothedPoints i candidates =
     (if int i < int (length smoothedPoints) - int windowSize then
        let current = smoothedPoints ! i;
            (isHigh, isLow) = scanWindow smoothedPoints i (i - windowSize) (True, True)
        in findCandidates smoothedPoints (Suc i)
             (if isHigh \<and> \<not> isLow then
                candidates @ [\<lparr>time = time current, height = height current, type = High\<rparr>]
              else if isLow \<and> \<not> isHigh then
                candidates @ [\<lparr>time = time current, height = height current, type = Low\<rparr>]
              else candidates)
      else candidates)"
  by pat_completeness auto
termination
  by (relation "measure (\<lambda>(sp, i, c). length sp - i)") auto

declare findCandidates.simps [simp del]

definition minTimeBetweenExtremes :: int where
  "minTimeBetweenExtremes = 4 * 60 * 60 * 1000"

definition minHeightDifference :: real where
  "minHeightDifference = 0.1"

text \<open>One iteration of the filter loop over the candidates; the state is the array
  \<open>extremes\<close> and \<open>lastExtreme\<close> (\<open>None\<close> for \<open>null\<close>).\<close>

definition filterStep ::
    "TideExtreme list \<times> TideExtreme option \<Rightarrow> TideExtreme \<Rightarrow> TideExtreme list \<times> TideExtreme option" where
  "filterStep st candidate =
     (case st of (extremes, lastExtreme) \<Rightarrow>
      (case lastExtreme of
         None \<Rightarrow> (extremes @ [candidate], Some candidate)
       | Some le \<Rightarrow>
           let timeDiff = time candidate - time le;
               heightDiff = \<bar>height candidate - height le\<bar>
           in if timeDiff \<ge> minTimeBetweenExtremes \<and> heightDiff \<ge> minHeightDifference then
                if type candidate \<noteq> type le then (extremes @ [candidate], Some candidate)
                else
                  let isMoreExtreme =
                        (type candidate = High \<and> height candidate > height le) \<or>
                        (type candidate = Low \<and> height candidate < height le)
                  in if isMoreExtreme
                     then (extremes[length extremes - 1 := candidate], Some candidate)
                     else (extremes, lastExtreme)
              else (extremes, lastExtreme)))"

fun filterCandidates ::
    "TideExtreme list \<Rightarrow> TideExtreme list \<times> TideExtreme option \<Rightarrow> TideExtreme list \<times> TideExtreme option" where
  "filterCandidates [] st = st"
| "filterCandidates (candidate # rest) st = filterCandidates rest (filterStep st candidate)"

text \<open>\<open>smoothData points 3\<close> never yields \<open>NaN\<close> heights; were they \<open>NaN\<close>, every
  comparison of the scan would be false and no candidate would be found.\<close>

definition findExtremes :: "TidePoint list \<Rightarrow> TideExtreme list" where
  "findExtremes points =
     (if length points < 10 then []
      else
        (case smoothData points 3 of
           None \<Rightarrow> []
         | Some smoothedPoints \<Rightarrow>
             let candidates = findCandidates smoothedPoints windowSize []
             in fst (filterCandidates candidates ([], None))))"

section \<open>Sampler: the top-level operation\<close>

definition samplingInterval :: int where
  "samplingInterval = 30 * 60 * 1000"

text \<open>The sampling loop of \<open>getTideData\<close>. \<open>rnd k\<close> is the value of the \<open>k\<close>-th call
  of \<open>Math.random()\<close>; each point makes one call, so the call for the next point is
  number \<open>length points\<close>.\<close>

function sampleLoop ::
    "int \<Rightarrow> (nat \<Rightarrow> real) \<Rightarrow> HarmonicConstituent list \<Rightarrow> int \<Rightarrow> int \<Rightarrow> TidePoint list
     \<Rightarrow> TidePoint list" where
  "sampleLoop tza rnd activeConstituents endTime t points =
     (if t \<le> endTime then
        let h = calculateTideHeight tza (rnd (length points)) t activeConstituents
        in sampleLoop tza rnd activeConstituents endTime (t + samplingInterval)
             (points @ [\<lparr>time = t, height = h\<rparr>])
      else points)"
  by pat_completeness auto
termination
  by (relation "measure (\<lambda>(tza, rnd, cs, endTime, t, ps). nat (endTime + 1 - t))")
     (auto simp: samplingInterval_def)

declare sampleLoop.simps [simp del]

text \<open>\<open>now\<close> is the value of \<open>new Date().getTime()\<close>; \<open>days\<close> is a whole number of
  days; \<open>constituents\<close> is the optional third argument (\<open>None\<close> when it is left out).\<close>

definition getTideData ::
    "int \<Rightarrow> (nat \<Rightarrow> real) \<Rightarrow> int \<Rightarrow> LocationConfig \<Rightarrow> int \<Rightarrow> HarmonicConstituent list option
     \<Rightarrow> TidePoint list \<times> TideExtreme list" where
  "getTideData tza rnd now location days constituents =
     (let startTime = now;
          endTime = startTime + (days * 86400000);
          activeConstituents =
            (case constituents of None \<Rightarrow> getDefaultConstituents | Some cs \<Rightarrow> cs);
          points = sampleLoop tza rnd activeConstituents endTime startTime [];
          extremes = findExtremes points
      in (points, extremes))"

section \<open>Risk classifier\<close>

text \<open>The loop over adjacent pairs of the sorted extremes, from \<open>i = 1\<close>.\<close>

function dangerLoop :: "TideExtreme list \<Rightarrow> nat \<Rightarrow> bool" where
  "dangerLoop sortedExtremes i =
     (if i < length sortedExtremes then
        let timeDiff = time (sortedExtremes ! i) - time (sortedExtremes ! (i - 1));
            heightDiff = \<bar>height (sortedExtremes ! i) - height (sortedExtremes ! (i - 1))\<bar>
        in if heightDiff > 0.4 \<and> timeDiff < 14400000 then True
           else dangerLoop sortedExtremes (Suc i)
      else False)"
  by pat_completeness auto
termination
  by (relation "measure (\<lambda>(es, i). length es - i)") auto

declare dangerLoop.simps [simp del]

text \<open>\<open>[...extremes].sort((a, b) => a.time - b.time)\<close> is a stable sort by time, as
  \<open>sort_key\<close> is.\<close>

definition isDangerousTide :: "real \<Rightarrow> TideExtreme list \<Rightarrow> bool" where
  "isDangerousTide h extremes =
     (let highTideThreshold = 0.85
      in if h > highTideThreshold then True
         else if length extremes \<ge> 2 then
           (let sortedExtremes = sort_key time extremes
            in if dangerLoop sortedExtremes 1 then True else False)
         else False)"

section \<open>Recommendation generator\<close>

type_synonym recommendation = "Date \<times> string"

definition hoursBetween :: "int option \<Rightarrow> int \<Rightarrow> int \<Rightarrow> bool" where
  "hoursBetween h lo hi = (case h of None \<Rightarrow> False | Some x \<Rightarrow> x \<ge> lo \<and> x \<le> hi)"

text \<open>The loop of \<open>getBestFridayVisitTimes\<close> over the sorted Friday extremes.\<close>

fun visitLoop ::
    "(int \<Rightarrow> int) \<Rightarrow> TideExtreme list \<Rightarrow> recommendation list \<Rightarrow> recommendation list" where
  "visitLoop localTZA [] recommendations = recommendations"
| "visitLoop localTZA (extreme # rest) recommendations =
     (let t = newDate (time extreme);
          recommendations1 =
            (if type extreme = Low \<and> hoursBetween (getHours localTZA t) 6 18
             then recommendations @
                    [(t, ''Low tide during daylight hours - ideal for beach activities'')]
             else recommendations);
          recommendations2 =
            (if type extreme = Low then
               let swimmingTime = newDate (time extreme + 3600000)
               in if hoursBetween (getHours localTZA swimmingTime) 7 17
                  then recommendations1 @
                         [(swimmingTime, ''Gradually rising tide - good for swimming'')]
                  else recommendations1
             else recommendations1)
      in visitLoop localTZA rest recommendations2)"

definition getBestFridayVisitTimes ::
    "(int \<Rightarrow> int) \<Rightarrow> TideExtreme list \<Rightarrow> recommendation list" where
  "getBestFridayVisitTimes localTZA extremes =
     (let fridayExtremes =
            filter (\<lambda>extreme. getDay localTZA (newDate (time extreme)) = Some 5) extremes;
          sortedExtremes = sort_key time fridayExtremes
      in visitLoop localTZA sortedExtremes [])"

section \<open>Auxiliary notions for the statements\<close>

text \<open>The test of the loop body of \<open>isDangerousTide\<close> on the pair at indices \<open>k - 1\<close>
  and \<open>k\<close>, named for the proofs.\<close>

definition swing :: "TideExtreme list \<Rightarrow> nat \<Rightarrow> bool" where
  "swing s k \<longleftrightarrow> \<bar>height (s ! k) - height (s ! (k - 1))\<bar> > 0.4 \<and>
               time (s ! k) - time (s ! (k - 1)) < 14400000"

text \<open>What one extreme adds to \<open>recommendations\<close> in one iteration of the loop of
  \<open>getBestFridayVisitTimes\<close>.\<close>

definition recommendationsOf :: "(int \<Rightarrow> int) \<Rightarrow> TideExtreme \<Rightarrow> recommendation list" where
  "recommendationsOf localTZA extreme =
     (if type extreme = Low \<and> hoursBetween (getHours localTZA (newDate (time extreme))) 6 18
      then [(newDate (time extreme), ''Low tide during daylight hours - ideal for beach activities'')]
      else []) @
     (if type extreme = Low \<and> hoursBetween (getHours localTZA (newDate (time extreme + 3600000))) 7 17
      then [(newDate (time extreme + 3600000), ''Gradually rising tide - good for swimming'')]
      else [])"

text \<open>The reading of the specification's windows as ranges of clock time: the local time
  of day of \<open>t\<close> lies between \<open>lo\<close>:00 and \<open>hi\<close>:00, both included.\<close>

definition spec_inClockWindow :: "(int \<Rightarrow> int) \<Rightarrow> int \<Rightarrow> int \<Rightarrow> int \<Rightarrow> bool" where
  "spec_inClockWindow localTZA t lo hi \<longleftrightarrow>
     lo * 3600000 \<le> (t + localTZA t) mod 86400000 \<and> (t + localTZA t) mod 86400000 \<le> hi * 3600000"

text \<open>The arithmetic mean of the heights at the indices \<open>max 0 (i - h) .. min (n - 1) (i + h)\<close>:
  a window reaching \<open>h\<close> points to each side of \<open>i\<close>, cut off at the ends of the
  sequence.\<close>

definition windowMean :: "TidePoint list \<Rightarrow> nat \<Rightarrow> nat \<Rightarrow> real" where
  "windowMean points h i =
     sum_list (map (\<lambda>j. height (points ! j)) [i - h ..< min (length points) (i + h + 1)])
       / real (min (length points) (i + h + 1) - (i - h))"

text \<open>The contribution of one constituent as the specification words it: the amplitude
  for a constituent of speed 0, the cosine term for every other.\<close>

definition spec_contribution :: "real \<Rightarrow> HarmonicConstituent \<Rightarrow> real" where
  "spec_contribution hoursElapsed c =
     (if speed c = 0 then amplitude c
      else amplitude c * cos ((speed c * hoursElapsed + phase c) * (pi / 180)))"

text \<open>The invariant of the filter loop of \<open>findExtremes\<close>: consecutive entries of
  \<open>extremes\<close> are at least \<open>minTimeBetweenExtremes\<close> apart and of different type, and
  \<open>lastExtreme\<close> is the last entry (\<open>null\<close> while there is none).\<close>

definition filterInv :: "TideExtreme list \<times> TideExtreme option \<Rightarrow> bool" where
  "filterInv st =
     (case st of (extremes, lastExtreme) \<Rightarrow>
        successively (\<lambda>a b. time a + minTimeBetweenExtremes \<le> time b \<and> type a \<noteq> type b) extremes
      \<and> lastExtreme = (if extremes = [] then None else Some (last extremes)))"

text \<open>What one iteration of the candidate scan appends to \<open>candidates\<close> at index \<open>i\<close>.\<close>

definition candidateAt :: "TidePoint list \<Rightarrow> nat \<Rightarrow> TideExtreme list" where
  "candidateAt smoothedPoints i =
     (let current = smoothedPoints ! i;
          (isHigh, isLow) = scanWindow smoothedPoints i (i - windowSize) (True, True)
      in if isHigh \<and> \<not> isLow then
           [\<lparr>time = time current, height = height current, type = High\<rparr>]
         else if isLow \<and> \<not> isHigh then
           [\<lparr>time = time current, height = height current, type = Low\<rparr>]
         else [])"

text \<open>A series of 43 points, 30 minutes apart (heights in centimetres, divided by 100):
  a low, a plateau, a lower high between two flat troughs, and a higher high.
  \<open>plateauSmoothed\<close> is its moving average of window 3.\<close>

definition plateauSeries :: "TidePoint list" where
  "plateauSeries =
     map (\<lambda>(i, h). \<lparr>time = int i * 1800000, height = h / 100\<rparr>)
       (enumerate 0
         [150, 141, 129, 120, 111, 99, 90, 99, 120, 150, 150, 150, 150, 21, 21, 21, 21, 21,
          30, 36, 42, 51, 42, 36, 30, 21, 21, 21, 21, 21, 33, 45, 57, 69, 81, 93, 102, 93,
          81, 69, 57, 45, 33])"

definition plateauSmoothed :: "TidePoint list" where
  "plateauSmoothed =
     map (\<lambda>(i, h). \<lparr>time = int i * 1800000, height = h / 100\<rparr>)
       (enumerate 0
         [291 / 2, 140, 130, 120, 110, 100, 96, 103, 123, 140, 150, 150, 107, 64, 21, 21, 21,
          24, 29, 36, 43, 45, 43, 36, 29, 24, 21, 21, 21, 25, 33, 45, 57, 69, 81, 92, 96, 92,
          81, 69, 57, 45, 39])"

section \<open>Properties of the signal synthesizer\<close>

lemma sumConstituents_eq:
  "sumConstituents hoursElapsed cs h =
     h + (\<Sum>c\<leftarrow>cs. if name c = ''Z0'' then amplitude c
                  else amplitude c * cos ((speed c * hoursElapsed + phase c) * (pi / 180)))"
  by (induction cs arbitrary: h) (simp_all add: Let_def)

text \<open>
  Claim C2, as stated, lets the speed decide which constituents are constant terms. The
  source tests the name (\<open>constituent.name === 'Z0'\<close>): at the reference time and with
  no noise (\<open>Math.random() = 1/2\<close>), a constituent of speed 0 named \<open>M0\<close>, amplitude 1 and
  phase 180 contributes the cosine of 180 degrees, \<open>-1\<close>, not its amplitude; and a
  constituent named \<open>Z0\<close> of speed 30, amplitude 1 and phase 90 contributes its amplitude 1,
  not the cosine of 90 degrees, \<open>0\<close>.
\<close>

theorem calculateTideHeight_speed_counterexample:
  "calculateTideHeight 0 (1 / 2) (REFERENCE_TIME 0)
     [\<lparr>name = ''M0'', speed = 0, amplitude = 1, phase = 180\<rparr>] = - 1
   \<and> spec_contribution 0 \<lparr>name = ''M0'', speed = 0, amplitude = 1, phase = 180\<rparr> = 1
   \<and> calculateTideHeight 0 (1 / 2) (REFERENCE_TIME 0)
     [\<lparr>name = ''Z0'', speed = 30, amplitude = 1, phase = 90\<rparr>] = 1
   \<and> spec_contribution 0 \<lparr>name = ''Z0'', speed = 30, amplitude = 1, phase = 90\<rparr> = 0"
  by (simp add: calculateTideHeight_def spec_contribution_def Let_def)

text \<open>
  Claim C2, amended. For every constituent set and every timestamp, each constituent
  named \<open>Z0\<close> contributes exactly its amplitude regardless of time, and every other
  constituent contributes \<open>amplitude * cos ((speed * hoursElapsed + phase) * pi / 180)\<close>,
  \<open>hoursElapsed\<close> being the hours since the reference epoch; the result is the sum of the
  contributions plus the random variation. For the default constituents, where \<open>Z0\<close> is
  the one constituent of speed 0, this is the sum of the contributions the specification
  words by speed.
\<close>

theorem calculateTideHeight_contributions:
  "calculateTideHeight tza random t constituents =
     (\<Sum>c\<leftarrow>constituents.
        if name c = ''Z0'' then amplitude c
        else amplitude c *
             cos ((speed c * (real_of_int (t - REFERENCE_TIME tza) / 3600000) + phase c) * (pi / 180)))
     + (random * 0.1 - 0.05)
   \<and> calculateTideHeight tza random t getDefaultConstituents =
     (\<Sum>c\<leftarrow>getDefaultConstituents.
        spec_contribution (real_of_int (t - REFERENCE_TIME tza) / 3600000) c)
     + (random * 0.1 - 0.05)"
proof -
  have a: "calculateTideHeight tza random t cs =
     (\<Sum>c\<leftarrow>cs.
        if name c = ''Z0'' then amplitude c
        else amplitude c *
             cos ((speed c * (real_of_int (t - REFERENCE_TIME tza) / 3600000) + phase c) * (pi / 180)))
     + (random * 0.1 - 0.05)" for cs
    by (simp add: calculateTideHeight_def Let_def sumConstituents_eq del: of_int_diff)
  have b: "calculateTideHeight tza random t getDefaultConstituents =
     (\<Sum>c\<leftarrow>getDefaultConstituents.
        spec_contribution (real_of_int (t - REFERENCE_TIME tza) / 3600000) c)
     + (random * 0.1 - 0.05)"
    unfolding a by (simp add: getDefaultConstituents_def spec_contribution_def)
  show ?thesis by (intro conjI a b)
qed

section \<open>Properties of the sampler\<close>

text \<open>The sampling loop in closed form: starting at \<open>t\<close> it appends one point every
  \<open>samplingInterval\<close> while the time does not exceed \<open>endTime\<close>.\<close>

lemma sampleLoop_eq:
  "sampleLoop tza rnd cs endTime t points =
     points @ map (\<lambda>k. \<lparr>time = t + int k * samplingInterval,
                          height = calculateTideHeight tza (rnd (length points + k))
                                     (t + int k * samplingInterval) cs\<rparr>)
                  [0 ..< nat ((endTime - t) div samplingInterval + 1)]"
proof (induction tza rnd cs endTime t points rule: sampleLoop.induct)
  case (1 tza rnd cs endTime t points)
  let ?si = samplingInterval
  have si: "0 < ?si" by (simp add: samplingInterval_def)
  show ?case
  proof (cases "t \<le> endTime")
    case False
    then have "(endTime - t) div ?si < 0"
      using si by (simp add: div_neg_pos_less0)
    then have "nat ((endTime - t) div ?si + 1) = 0" by simp
    with False show ?thesis by (simp add: sampleLoop.simps)
  next
    case True
    then have nn: "0 \<le> (endTime - t) div ?si"
      using si by (simp add: pos_imp_zdiv_nonneg_iff)
    have d: "(endTime - (t + ?si)) div ?si = (endTime - t) div ?si - 1"
    proof -
      have "(endTime - t) div ?si = ((endTime - (t + ?si)) + ?si) div ?si" by simp
      also have "\<dots> = (endTime - (t + ?si)) div ?si + 1"
        using si by (subst div_add_self2) simp_all
      finally show ?thesis by simp
    qed
    have n: "nat ((endTime - t) div ?si + 1) = Suc (nat ((endTime - (t + ?si)) div ?si + 1))"
      using nn d by simp
    have step: "sampleLoop tza rnd cs endTime t points =
        sampleLoop tza rnd cs endTime (t + ?si)
          (points @ [\<lparr>time = t, height = calculateTideHeight tza (rnd (length points)) t cs\<rparr>])"
      using True by (subst sampleLoop.simps) (simp add: Let_def)
    show ?thesis
      unfolding step n
      using "1.IH"[OF True refl]
      by (simp add: map_upt_Suc add.assoc distrib_right del: upt_Suc)
  qed
qed

lemma getTideData_points:
  "fst (getTideData tza rnd now location days constituents) =
     map (\<lambda>k. \<lparr>time = now + int k * 1800000,
                 height = calculateTideHeight tza (rnd k) (now + int k * 1800000)
                   (case constituents of None \<Rightarrow> getDefaultConstituents | Some cs \<Rightarrow> cs)\<rparr>)
         [0 ..< nat (days * 48 + 1)]"
proof -
  have d: "(now + days * 86400000 - now) div samplingInterval + 1 = days * 48 + 1"
    by (simp add: samplingInterval_def)
  have s: "int k * samplingInterval = int k * 1800000" for k
    by (simp add: samplingInterval_def)
  show ?thesis
    unfolding getTideData_def Let_def fst_conv sampleLoop_eq d s
    by simp
qed

text \<open>
  Claim C6. For every non-negative integer \<open>days\<close>, the points of \<open>getTideData\<close> have
  the times \<open>startTime + i * 1800000\<close> for \<open>i = 0 .. days * 48\<close>; they are strictly
  increasing, the first is \<open>startTime\<close> and the last is \<open>startTime + days * 86400000\<close>;
  for \<open>days = 7\<close> there are exactly 337 points.
\<close>

theorem getTideData_window:
  assumes "0 \<le> days"
  shows "map time (fst (getTideData tza rnd now location days constituents)) =
           map (\<lambda>i. now + int i * 1800000) [0 ..< nat days * 48 + 1]
       \<and> sorted_wrt (<) (map time (fst (getTideData tza rnd now location days constituents)))
       \<and> hd (map time (fst (getTideData tza rnd now location days constituents))) = now
       \<and> last (map time (fst (getTideData tza rnd now location days constituents)))
           = now + days * 86400000
       \<and> length (fst (getTideData tza rnd now location 7 constituents)) = 337"
proof -
  let ?ts = "map time (fst (getTideData tza rnd now location days constituents))"
  have n: "nat (days * 48 + 1) = nat days * 48 + 1"
    using assms by (simp add: nat_add_distrib nat_mult_distrib)
  have ts: "?ts = map (\<lambda>i. now + int i * 1800000) [0 ..< nat days * 48 + 1]"
    by (simp add: getTideData_points n o_def del: upt_Suc)
  have srt: "sorted_wrt (<) ?ts"
    unfolding ts by (simp add: sorted_wrt_map sorted_wrt_upt del: upt_Suc)
  have h: "hd ?ts = now"
    unfolding ts by (simp add: hd_map upt_conv_Cons del: upt_Suc)
  have l: "last ?ts = now + days * 86400000"
    unfolding ts using assms by (simp add: last_map)
  have seven: "length (fst (getTideData tza rnd now location 7 constituents)) = 337"
  proof -
    have "nat (7 * 48 + 1) = (337::nat)" by simp
    then show ?thesis
      by (simp only: getTideData_points length_map length_upt)
  qed
  show ?thesis by (intro conjI ts srt h l seven)
qed

theorem getTideData_window_witness:
  "(0::int) \<le> 7 \<and>
   length (fst (getTideData 0 (\<lambda>k. 1 / 2) 1762128000000
     \<lparr>LocationConfig.name = ''Beach'', latitude = 2.0469, longitude = 45.3182,
      timezone = None, country = Some ''Somalia'', region = Some ''East Africa''\<rparr> 7 None)) = 337
   \<and> hd (map time (fst (getTideData 0 (\<lambda>k. 1 / 2) 1762128000000
     \<lparr>LocationConfig.name = ''Beach'', latitude = 2.0469, longitude = 45.3182,
      timezone = None, country = Some ''Somalia'', region = Some ''East Africa''\<rparr> 7 None)))
     = 1762128000000"
proof -
  have h: "(0::int) \<le> 7" by simp
  note w = getTideData_window [OF h, of 0 "\<lambda>k. 1 / 2" 1762128000000
     "\<lparr>LocationConfig.name = ''Beach'', latitude = 2.0469, longitude = 45.3182,
      timezone = None, country = Some ''Somalia'', region = Some ''East Africa''\<rparr>" None]
  show ?thesis
    by (intro conjI h w [THEN conjunct2, THEN conjunct2, THEN conjunct1]
          w [THEN conjunct2, THEN conjunct2, THEN conjunct2, THEN conjunct2])
qed

text \<open>
  Claim C9. With \<open>days = 0\<close>, \<open>getTideData\<close> returns exactly one point, at the start
  time, and no extremes; with negative \<open>days\<close> it returns no points and no extremes.
  The model is a total function: no branch of the source raises on these paths.
\<close>

theorem getTideData_degenerate:
  "getTideData tza rnd now location 0 constituents =
     ([\<lparr>time = now,
        height = calculateTideHeight tza (rnd 0) now
          (case constituents of None \<Rightarrow> getDefaultConstituents | Some cs \<Rightarrow> cs)\<rparr>], [])
   \<and> (days < 0 \<longrightarrow> getTideData tza rnd now location days constituents = ([], []))"
proof -
  have e: "snd (getTideData tza rnd now location d constituents)
         = findExtremes (fst (getTideData tza rnd now location d constituents))" for d
    by (simp add: getTideData_def Let_def)
  have p0: "fst (getTideData tza rnd now location 0 constituents) =
     [\<lparr>time = now,
        height = calculateTideHeight tza (rnd 0) now
          (case constituents of None \<Rightarrow> getDefaultConstituents | Some cs \<Rightarrow> cs)\<rparr>]"
    by (simp add: getTideData_points)
  have pn: "fst (getTideData tza rnd now location days constituents) = []" if "days < 0"
  proof -
    from that have "nat (days * 48 + 1) = 0" by simp
    then show ?thesis by (simp add: getTideData_points)
  qed
  have "getTideData tza rnd now location 0 constituents = (fst (getTideData tza rnd now location 0 constituents), snd (getTideData tza rnd now location 0 constituents))"
    by simp
  then have a: "getTideData tza rnd now location 0 constituents =
     ([\<lparr>time = now,
        height = calculateTideHeight tza (rnd 0) now
          (case constituents of None \<Rightarrow> getDefaultConstituents | Some cs \<Rightarrow> cs)\<rparr>], [])"
    unfolding e p0 by (simp add: findExtremes_def)
  have b: "getTideData tza rnd now location days constituents = ([], [])" if "days < 0"
    using pn[OF that] e[of days] by (simp add: prod_eq_iff findExtremes_def)
  show ?thesis by (intro conjI impI a b)
qed

theorem getTideData_degenerate_witness:
  "(-1::int) < 0 \<and> getTideData 0 (\<lambda>k. 1 / 2) 1762128000000
     \<lparr>LocationConfig.name = ''Beach'', latitude = 2.0469, longitude = 45.3182,
      timezone = None, country = Some ''Somalia'', region = Some ''East Africa''\<rparr> (-1) None
     = ([], [])"
proof -
  have h: "(-1::int) < 0" by simp
  note w = getTideData_degenerate [of 0 "\<lambda>k. 1 / 2" 1762128000000
     "\<lparr>LocationConfig.name = ''Beach'', latitude = 2.0469, longitude = 45.3182,
      timezone = None, country = Some ''Somalia'', region = Some ''East Africa''\<rparr>" None "-1",
     THEN conjunct2, rule_format, OF h]
  show ?thesis by (intro conjI h w)
qed

text \<open>
  Claim C10. The location descriptor does not influence the result: at the same start
  time, with the same random values, any two locations give the same points and the
  same extremes.
\<close>

theorem getTideData_location_irrelevant:
  "getTideData tza rnd now location1 days constituents =
   getTideData tza rnd now location2 days constituents"
  by (simp add: getTideData_def)

section \<open>Properties of the smoother\<close>

lemma sumWindow_eq:
  "sumWindow points j e (acc, c) =
     (acc + sum_list (map (\<lambda>k. height (points ! nat k)) [j..e]), c + length [j..e])"
proof (induction points j e "(acc, c)" arbitrary: acc c rule: sumWindow.induct)
  case (1 points j e acc c)
  show ?case
  proof (cases "j \<le> e")
    case True
    have "sumWindow points j e (acc, c) =
          sumWindow points (j + 1) e (acc + height (points ! nat j), c + 1)"
      using True by (subst sumWindow.simps) simp
    also have "\<dots> = (acc + height (points ! nat j)
                       + sum_list (map (\<lambda>k. height (points ! nat k)) [j + 1..e]),
                     c + 1 + length [j + 1..e])"
      by (rule "1.hyps"[OF True])
    also have "\<dots> = (acc + sum_list (map (\<lambda>k. height (points ! nat k)) [j..e]), c + length [j..e])"
      using True by (simp add: upto_rec1[of j e])
    finally show ?thesis .
  next
    case False
    then show ?thesis by (subst sumWindow.simps) simp
  qed
qed

lemma map_nat_upto: "0 \<le> a \<Longrightarrow> map nat [a..b] = [nat a ..< nat (b + 1)]"
proof (rule nth_equalityI)
  assume a: "0 \<le> a"
  show "length (map nat [a..b]) = length [nat a..<nat (b + 1)]"
    using a by simp
  fix k assume "k < length (map nat [a..b])"
  then have k: "a + int k \<le> b" by simp
  then have lt: "nat a + k < nat (b + 1)" using a by linarith
  have "map nat [a..b] ! k = nat (a + int k)"
    using k by simp
  also have "\<dots> = nat a + k" using a by linarith
  also have "\<dots> = [nat a..<nat (b + 1)] ! k"
    using lt by (simp only: nth_upt)
  finally show "map nat [a..b] ! k = [nat a..<nat (b + 1)] ! k" .
qed

lemma smoothLoop_step:
  assumes "i < length points" "0 \<le> w"
  shows "smoothLoop points w i smoothed =
         smoothLoop points w (Suc i)
           (smoothed @ [\<lparr>time = time (points ! i),
                          height = windowMean points (nat (w div 2)) i\<rparr>])"
proof -
  define h where "h = nat (w div 2)"
  have hw: "w div 2 = int h"
    using assms(2) by (simp add: h_def)
  define start where "start = max 0 (int i - int h)"
  define e where "e = min (int (length points) - 1) (int i + int h)"
  have s0: "0 \<le> start" by (simp add: start_def)
  have ns: "nat start = i - h" by (simp add: start_def)
  have ne: "nat (e + 1) = min (length points) (i + h + 1)"
    using assms(1) unfolding e_def min_def by (auto simp: nat_add_distrib)
  have se: "start \<le> int i" "int i \<le> e"
    using assms(1) by (simp_all add: start_def e_def)
  have len: "length [start..e] = min (length points) (i + h + 1) - (i - h)"
  proof -
    have "e - start + 1 = e + 1 - start" by simp
    moreover have "nat (e + 1 - start) = nat (e + 1) - nat start"
      using s0 se by (intro nat_diff_distrib) simp_all
    ultimately show ?thesis by (simp only: length_upto ns ne)
  qed
  have pos: "length [start..e] \<noteq> 0"
    using se by simp
  have sm: "sum_list (map (\<lambda>k. height (points ! nat k)) [start..e]) =
            sum_list (map (\<lambda>j. height (points ! j)) [i - h ..< min (length points) (i + h + 1)])"
  proof -
    have "map (\<lambda>k. height (points ! nat k)) [start..e] =
          map (\<lambda>j. height (points ! j)) (map nat [start..e])"
      by (simp add: o_def)
    then show ?thesis
      by (simp only: map_nat_upto[OF s0] ns ne)
  qed
  have sw: "sumWindow points start e (0, 0) =
        (sum_list (map (\<lambda>j. height (points ! j)) [i - h ..< min (length points) (i + h + 1)]),
         length [start..e])"
    unfolding sumWindow_eq sm by simp
  show ?thesis
    using assms(1) pos
    by (subst smoothLoop.simps)
       (simp only: hw start_def[symmetric] e_def[symmetric] Let_def sw prod.case
          windowMean_def len nat_int if_True if_False)
qed

lemma smoothLoop_eq:
  assumes "0 \<le> w"
  shows "smoothLoop points w i smoothed =
     Some (smoothed @ map (\<lambda>k. \<lparr>time = time (points ! k),
                                 height = windowMean points (nat (w div 2)) k\<rparr>)
                       [i ..< length points])"
proof (induction "length points - i" arbitrary: i smoothed)
  case 0
  then have "\<not> i < length points" by simp
  then show ?case by (subst smoothLoop.simps) simp
next
  case (Suc n)
  then have inb: "i < length points" and n: "n = length points - Suc i" by simp_all
  show ?case
    unfolding smoothLoop_step[OF inb assms] Suc.hyps(1)[OF n]
    using inb by (simp add: upt_conv_Cons)
qed

lemma smoothLoop_negative:
  assumes "w < 0" "i < length points"
  shows "smoothLoop points w i smoothed = None"
proof -
  define start where "start = max 0 (int i - w div 2)"
  define e where "e = min (int (length points) - 1) (int i + w div 2)"
  have "w div 2 < 0" using assms(1) by simp
  then have lt: "\<not> start \<le> e" by (simp add: start_def e_def)
  have sw: "sumWindow points start e (0, 0) = (0, 0)"
    using lt by (subst sumWindow.simps) simp
  show ?thesis
    using assms(2)
    by (subst smoothLoop.simps)
       (simp add: start_def[symmetric] e_def[symmetric] Let_def sw)
qed

text \<open>
  Claim C7, as stated, gives the window the width \<open>windowSize\<close> for every \<open>windowSize\<close>.
  The source takes \<open>floor(windowSize / 2)\<close> points to each side: with \<open>windowSize = 2\<close>
  the middle point of three becomes the mean of all three heights, which is the mean of
  neither window of two adjacent points around it.
\<close>

theorem smoothData_width_counterexample:
  "smoothData [\<lparr>time = 0, height = 0\<rparr>, \<lparr>time = 1800000, height = 3\<rparr>, \<lparr>time = 3600000, height = 0\<rparr>] 2
     = Some [\<lparr>time = 0, height = 3 / 2\<rparr>, \<lparr>time = 1800000, height = 1\<rparr>,
             \<lparr>time = 3600000, height = 3 / 2\<rparr>]
   \<and> (0 + 3) / 2 \<noteq> (1::real) \<and> (3 + 0) / 2 \<noteq> (1::real)"
  by (simp add: smoothData_def smoothLoop.simps sumWindow.simps Let_def)

text \<open>
  Claim C7, amended. For every list of points and every \<open>windowSize \<ge> 0\<close>, \<open>smoothData\<close>
  returns a sequence of the same length with every time unchanged, and the height at
  index \<open>i\<close> is the arithmetic mean of the input heights at the indices from
  \<open>max 0 (i - h)\<close> to \<open>min (n - 1) (i + h)\<close>, where \<open>h = floor(windowSize / 2)\<close>: a centred
  window of width \<open>windowSize\<close> when \<open>windowSize\<close> is odd and \<open>windowSize + 1\<close> when it is
  even, cut off at the ends of the sequence (no padding, no wrapping).
\<close>

theorem smoothData_mean:
  assumes "0 \<le> w"
  shows "\<exists>smoothed. smoothData points w = Some smoothed
     \<and> length smoothed = length points
     \<and> (\<forall>i < length points.
           time (smoothed ! i) = time (points ! i) \<and>
           height (smoothed ! i) =
             sum_list (map (\<lambda>j. height (points ! j))
               [i - nat (w div 2) ..< min (length points) (i + nat (w div 2) + 1)])
             / real (min (length points) (i + nat (w div 2) + 1) - (i - nat (w div 2))))"
proof -
  let ?sm = "map (\<lambda>k. \<lparr>time = time (points ! k),
                         height = windowMean points (nat (w div 2)) k\<rparr>)
                [0 ..< length points]"
  have "smoothData points w = Some ?sm"
    by (simp add: smoothData_def smoothLoop_eq[OF assms])
  moreover have "length ?sm = length points" by simp
  moreover have "\<forall>i < length points.
           time (?sm ! i) = time (points ! i) \<and>
           height (?sm ! i) =
             sum_list (map (\<lambda>j. height (points ! j))
               [i - nat (w div 2) ..< min (length points) (i + nat (w div 2) + 1)])
             / real (min (length points) (i + nat (w div 2) + 1) - (i - nat (w div 2)))"
    by (simp add: windowMean_def)
  ultimately show ?thesis by blast
qed

theorem smoothData_mean_witness:
  "(0::int) \<le> 3 \<and>
   (\<exists>smoothed. smoothData [\<lparr>time = 0, height = 0\<rparr>, \<lparr>time = 1800000, height = 3\<rparr>,
                            \<lparr>time = 3600000, height = 0\<rparr>] 3 = Some smoothed
      \<and> length smoothed = 3 \<and> time (smoothed ! 1) = 1800000 \<and> height (smoothed ! 1) = 1)"
  using smoothData_mean [of 3 "[\<lparr>time = 0, height = 0\<rparr>, \<lparr>time = 1800000, height = 3\<rparr>,
                            \<lparr>time = 3600000, height = 0\<rparr>]"]
  by (auto simp: upt_conv_Cons)

section \<open>Properties of the extremum detector\<close>

text \<open>
  Claim C8. For every list of fewer than 10 points \<open>findExtremes\<close> returns the empty
  list; the source returns before it reads any element, so nothing is raised.
\<close>

theorem findExtremes_short: "length points < 10 \<Longrightarrow> findExtremes points = []"
  by (simp add: findExtremes_def)

theorem findExtremes_short_witness:
  "length [\<lparr>time = 0, height = 1 / 2\<rparr>, \<lparr>time = 1800000, height = 3 / 5\<rparr>] < 10
   \<and> findExtremes [\<lparr>time = 0, height = 1 / 2\<rparr>, \<lparr>time = 1800000, height = 3 / 5\<rparr>] = []"
  using findExtremes_short [of "[\<lparr>time = 0, height = 1 / 2\<rparr>, \<lparr>time = 1800000, height = 3 / 5\<rparr>]"]
  by simp

section \<open>The filter loop of the extremum detector\<close>

lemma filterInv_init: "filterInv ([], None)"
  by (simp add: filterInv_def)

lemma filterStep_first: "filterStep ([], None) c = ([c], Some c)"
  by (simp add: filterStep_def)

lemma filterStep_snoc:
  "filterStep (ys @ [le], Some le) c =
     (if time c - time le \<ge> minTimeBetweenExtremes \<and> \<bar>height c - height le\<bar> \<ge> minHeightDifference
      then if type c \<noteq> type le then (ys @ [le, c], Some c)
           else if (type c = High \<and> height c > height le) \<or> (type c = Low \<and> height c < height le)
                then (ys @ [c], Some c)
                else (ys @ [le], Some le)
      else (ys @ [le], Some le))"
  by (simp add: filterStep_def Let_def)

lemma filterStep_inv:
  assumes "filterInv st"
  shows "filterInv (filterStep st c)"
proof -
  obtain extremes lastExtreme where st: "st = (extremes, lastExtreme)" by (cases st)
  let ?G = "\<lambda>a b::TideExtreme. time a + minTimeBetweenExtremes \<le> time b \<and> type a \<noteq> type b"
  show ?thesis
  proof (cases extremes rule: rev_cases)
    case Nil
    with assms st have "lastExtreme = None" by (simp add: filterInv_def)
    with Nil st show ?thesis by (simp add: filterStep_first filterInv_def)
  next
    case (snoc ys le)
    with assms st have l: "lastExtreme = Some le" and s: "successively ?G (ys @ [le])"
      by (simp_all add: filterInv_def)
    from s have sy: "successively ?G ys" and p: "ys = [] \<or> ?G (last ys) le"
      by (simp_all add: successively_append_iff)
    have mt: "0 \<le> minTimeBetweenExtremes" by (simp add: minTimeBetweenExtremes_def)
    have app: "successively ?G (ys @ [le, c])"
      if "time c - time le \<ge> minTimeBetweenExtremes" "type c \<noteq> type le"
    proof -
      have "ys @ [le, c] = (ys @ [le]) @ [c]" by simp
      moreover have "successively ?G ((ys @ [le]) @ [c])"
        using s that by (subst successively_append_iff) simp
      ultimately show ?thesis by simp
    qed
    have rep: "successively ?G (ys @ [c])"
      if "time c - time le \<ge> minTimeBetweenExtremes" "type c = type le"
    proof -
      from p have "ys = [] \<or> ?G (last ys) c"
        using that mt by auto
      with sy show ?thesis by (subst successively_append_iff) simp
    qed
    show ?thesis
      unfolding st l snoc filterStep_snoc
      using s app rep by (auto simp: filterInv_def)
  qed
qed

lemma filterCandidates_inv:
  "filterInv st \<Longrightarrow> filterInv (filterCandidates cands st)"
  by (induction cands arbitrary: st) (simp_all add: filterStep_inv)

lemma findExtremes_successively:
  "successively (\<lambda>a b. time a + minTimeBetweenExtremes \<le> time b \<and> type a \<noteq> type b)
     (findExtremes points)"
proof -
  have "successively (\<lambda>a b. time a + minTimeBetweenExtremes \<le> time b \<and> type a \<noteq> type b)
          (fst (filterCandidates cands ([], None)))" for cands
    using filterCandidates_inv[OF filterInv_init, of cands]
    by (simp add: filterInv_def split: prod.splits)
  then show ?thesis
    by (simp add: findExtremes_def Let_def split: option.splits)
qed

text \<open>
  Claim C5. For every list of points, the extremes returned by \<open>findExtremes\<close> are in
  strictly ascending order of time, and no two consecutive entries have the same type.
\<close>

theorem findExtremes_sorted_alternating:
  "sorted_wrt (\<lambda>a b. time a < time b) (findExtremes points)
   \<and> successively (\<lambda>a b. type a \<noteq> type b) (findExtremes points)"
proof -
  note s = findExtremes_successively[of points]
  have a: "successively (\<lambda>a b. type a \<noteq> type b) (findExtremes points)"
    by (rule successively_mono[OF s]) simp
  have "successively (\<lambda>a b. time a < time b) (findExtremes points)"
    by (rule successively_mono[OF s]) (simp add: minTimeBetweenExtremes_def)
  moreover have "transp (\<lambda>a b::TideExtreme. time a < time b)"
    by (auto simp: transp_def)
  ultimately have b: "sorted_wrt (\<lambda>a b. time a < time b) (findExtremes points)"
    by (simp add: successively_conv_sorted_wrt)
  show ?thesis by (intro conjI a b)
qed

section \<open>The candidate scan, and a series on which the height gap is lost\<close>

lemma findCandidates_step:
  assumes "i < length sp - windowSize"
  shows "findCandidates sp i cands = findCandidates sp (Suc i) (cands @ candidateAt sp i)"
proof -
  from assms have c: "int i < int (length sp) - int windowSize" by linarith
  show ?thesis
    using c by (subst findCandidates.simps)
               (simp add: candidateAt_def Let_def split: prod.splits)
qed

lemma findCandidates_eq:
  "findCandidates sp i cands =
     cands @ concat (map (candidateAt sp) [i ..< length sp - windowSize])"
proof (induction "length sp - windowSize - i" arbitrary: i cands)
  case 0
  then have "\<not> int i < int (length sp) - int windowSize" by linarith
  with 0 show ?case by (subst findCandidates.simps) simp
next
  case (Suc n)
  then have inb: "i < length sp - windowSize" and n: "n = length sp - windowSize - Suc i"
    by simp_all
  show ?case
    unfolding findCandidates_step[OF inb] Suc.hyps(1)[OF n]
    using inb by (simp add: upt_conv_Cons)
qed

lemma plateau_smooth: "smoothData plateauSeries 3 = Some plateauSmoothed"
  by code_simp

lemma plateau_candidates:
  "concat (map (candidateAt plateauSmoothed) [6 ..< 37]) =
     [\<lparr>time = 10800000, height = 24 / 25, type = Low\<rparr>,
      \<lparr>time = 37800000, height = 9 / 20, type = High\<rparr>,
      \<lparr>time = 64800000, height = 24 / 25, type = High\<rparr>]"
  by code_simp

lemma plateau_filter:
  "fst (filterCandidates
     [\<lparr>time = 10800000, height = 24 / 25, type = Low\<rparr>,
      \<lparr>time = 37800000, height = 9 / 20, type = High\<rparr>,
      \<lparr>time = 64800000, height = 24 / 25, type = High\<rparr>] ([], None)) =
     [\<lparr>time = 10800000, height = 24 / 25, type = Low\<rparr>,
      \<lparr>time = 64800000, height = 24 / 25, type = High\<rparr>]"
  by code_simp

lemma plateau_lengths:
  "length plateauSeries = 43" "length plateauSmoothed - windowSize = 37"
  by (simp_all add: plateauSeries_def plateauSmoothed_def windowSize_def)

text \<open>
  Claim C1 says that in the list returned by \<open>findExtremes\<close> every pair of consecutive
  entries is at least 4 hours apart in time and at least 0.1 m apart in height, also
  after the replace-if-more-extreme step. The gap in time holds for every input
  (\<open>findExtremes_successively\<close>). The gap in height is lost in the replace step: the
  candidate that overwrites the last entry was compared with the entry it replaces,
  never with the entry before that one. On \<open>plateauSeries\<close> the candidates are a Low of
  height 0.96, a High of 0.45 and a High of 0.96; the second High replaces the first, and
  the result is a Low and a High of the same height 0.96, closer than
  \<open>minHeightDifference\<close>.
\<close>

theorem findExtremes_height_gap_violated:
  "findExtremes plateauSeries =
     [\<lparr>time = 10800000, height = 24 / 25, type = Low\<rparr>,
      \<lparr>time = 64800000, height = 24 / 25, type = High\<rparr>]
   \<and> \<bar>height (findExtremes plateauSeries ! 1) - height (findExtremes plateauSeries ! 0)\<bar>
       < minHeightDifference"
proof -
  have w: "windowSize = 6" by (simp add: windowSize_def)
  have c: "findCandidates plateauSmoothed windowSize [] =
     [\<lparr>time = 10800000, height = 24 / 25, type = Low\<rparr>,
      \<lparr>time = 37800000, height = 9 / 20, type = High\<rparr>,
      \<lparr>time = 64800000, height = 24 / 25, type = High\<rparr>]"
    unfolding findCandidates_eq plateau_lengths
    by (simp only: w append_Nil plateau_candidates)
  have e: "findExtremes plateauSeries =
     [\<lparr>time = 10800000, height = 24 / 25, type = Low\<rparr>,
      \<lparr>time = 64800000, height = 24 / 25, type = High\<rparr>]"
    unfolding findExtremes_def plateau_lengths plateau_smooth option.case Let_def c plateau_filter
    by simp
  show ?thesis
    unfolding e by (simp add: minHeightDifference_def)
qed

section \<open>Properties of the risk classifier\<close>

text \<open>The loop is true exactly when some pair from index \<open>i\<close> on passes the test.\<close>

lemma dangerLoop_step:
  "dangerLoop s i = (if i < length s then (if swing s i then True else dangerLoop s (Suc i)) else False)"
  by (subst dangerLoop.simps) (simp add: Let_def swing_def)

lemma dangerLoop_iff:
  "dangerLoop s i \<longleftrightarrow> (\<exists>k. i \<le> k \<and> k < length s \<and> swing s k)"
proof (induction s i rule: dangerLoop.induct)
  case (1 s i)
  show ?case
  proof (cases "i < length s")
    case False
    then have "\<not> dangerLoop s i" by (subst dangerLoop_step) simp
    moreover from False have "\<not> (\<exists>k. i \<le> k \<and> k < length s \<and> swing s k)" by auto
    ultimately show ?thesis by simp
  next
    case inb: True
    show ?thesis
    proof (cases "swing s i")
      case True
      with inb have "dangerLoop s i" by (subst dangerLoop_step) simp
      moreover from inb True have "\<exists>k. i \<le> k \<and> k < length s \<and> swing s k" by blast
      ultimately show ?thesis by simp
    next
      case False
      then have nsw: "\<not> (\<bar>height (s ! i) - height (s ! (i - 1))\<bar> > 0.4 \<and>
               time (s ! i) - time (s ! (i - 1)) < 14400000)"
        by (simp add: swing_def)
      from inb False have "dangerLoop s i = dangerLoop s (Suc i)"
        by (subst dangerLoop_step) simp
      also have "\<dots> \<longleftrightarrow> (\<exists>k. Suc i \<le> k \<and> k < length s \<and> swing s k)"
        by (rule "1.IH"[OF inb refl refl nsw])
      also have "\<dots> \<longleftrightarrow> (\<exists>k. i \<le> k \<and> k < length s \<and> swing s k)"
      proof
        assume "\<exists>k. Suc i \<le> k \<and> k < length s \<and> swing s k"
        then obtain k where "Suc i \<le> k" "k < length s" "swing s k" by blast
        then have "i \<le> k \<and> k < length s \<and> swing s k" by simp
        then show "\<exists>k. i \<le> k \<and> k < length s \<and> swing s k" ..
      next
        assume "\<exists>k. i \<le> k \<and> k < length s \<and> swing s k"
        then obtain k where k: "i \<le> k" "k < length s" "swing s k" by blast
        with False have "k \<noteq> i" by auto
        with k have "Suc i \<le> k \<and> k < length s \<and> swing s k" by simp
        then show "\<exists>k. Suc i \<le> k \<and> k < length s \<and> swing s k" ..
      qed
      finally show ?thesis .
    qed
  qed
qed

text \<open>
  Claim C4. \<open>isDangerousTide\<close> is true exactly when the height exceeds 0.85 or some
  adjacent pair of the extremes sorted by ascending time (a stable sort, a permutation of
  the input) differs by more than 0.4 in height and by less than 14400000 ms in time;
  for the empty list it is true exactly when the height exceeds 0.85.
\<close>

theorem isDangerousTide_iff:
  "(isDangerousTide h extremes \<longleftrightarrow>
      h > 0.85 \<or>
      (\<exists>i. Suc i < length extremes \<and>
           \<bar>height (sort_key time extremes ! Suc i) - height (sort_key time extremes ! i)\<bar> > 0.4 \<and>
           time (sort_key time extremes ! Suc i) - time (sort_key time extremes ! i) < 14400000))
   \<and> sorted (map time (sort_key time extremes))
   \<and> mset (sort_key time extremes) = mset extremes
   \<and> (isDangerousTide h [] \<longleftrightarrow> h > 0.85)"
proof -
  define s where "s = sort_key time extremes"
  have len: "length s = length extremes" by (simp add: s_def)
  have shift: "(\<exists>k. 1 \<le> k \<and> k < length s \<and> swing s k) \<longleftrightarrow>
               (\<exists>i. Suc i < length extremes \<and> swing s (Suc i))"
  proof
    assume "\<exists>k. 1 \<le> k \<and> k < length s \<and> swing s k"
    then obtain k where k: "1 \<le> k" "k < length s" "swing s k" by blast
    then obtain i where "k = Suc i" by (cases k) auto
    with k len have "Suc i < length extremes \<and> swing s (Suc i)" by simp
    then show "\<exists>i. Suc i < length extremes \<and> swing s (Suc i)" ..
  next
    assume "\<exists>i. Suc i < length extremes \<and> swing s (Suc i)"
    then obtain i where "Suc i < length extremes" "swing s (Suc i)" by blast
    with len have "1 \<le> Suc i \<and> Suc i < length s \<and> swing s (Suc i)" by simp
    then show "\<exists>k. 1 \<le> k \<and> k < length s \<and> swing s k" ..
  qed
  have main: "isDangerousTide h extremes \<longleftrightarrow>
      h > 0.85 \<or> (\<exists>i. Suc i < length extremes \<and> swing s (Suc i))"
  proof (cases "2 \<le> length extremes")
    case True
    then have "isDangerousTide h extremes \<longleftrightarrow> h > 0.85 \<or> dangerLoop s 1"
      by (simp add: isDangerousTide_def s_def)
    then show ?thesis by (simp only: dangerLoop_iff shift)
  next
    case False
    then have "isDangerousTide h extremes \<longleftrightarrow> h > 0.85"
      by (simp add: isDangerousTide_def)
    moreover from False have "\<not> (\<exists>i. Suc i < length extremes \<and> swing s (Suc i))"
      by auto
    ultimately show ?thesis by blast
  qed
  have e: "isDangerousTide h [] \<longleftrightarrow> h > 0.85"
    by (simp add: isDangerousTide_def)
  have main': "isDangerousTide h extremes \<longleftrightarrow>
      h > 0.85 \<or>
      (\<exists>i. Suc i < length extremes \<and>
           \<bar>height (sort_key time extremes ! Suc i) - height (sort_key time extremes ! i)\<bar> > 0.4 \<and>
           time (sort_key time extremes ! Suc i) - time (sort_key time extremes ! i) < 14400000)"
    using main by (simp add: swing_def s_def)
  have srt: "sorted (map time (sort_key time extremes))" by simp
  have ms: "mset (sort_key time extremes) = mset extremes" by simp
  show ?thesis
    by (intro conjI main' e srt ms)
qed

section \<open>Properties of the recommendation generator\<close>

lemma visitLoop_eq:
  "visitLoop tz es recs = recs @ concat (map (recommendationsOf tz) es)"
  by (induction es arbitrary: recs) (simp_all add: recommendationsOf_def Let_def)

lemma getBestFridayVisitTimes_eq:
  "getBestFridayVisitTimes tz es =
     concat (map (recommendationsOf tz)
       (sort_key time (filter (\<lambda>e. getDay tz (newDate (time e)) = Some 5) es)))"
  by (simp add: getBestFridayVisitTimes_def visitLoop_eq)

lemma mset_concat_recommendationsOf:
  "mset (concat (map (recommendationsOf tz) xs)) =
     image_mset (\<lambda>e. (newDate (time e), ''Low tide during daylight hours - ideal for beach activities''))
       (filter_mset (\<lambda>e. type e = Low \<and> hoursBetween (getHours tz (newDate (time e))) 6 18) (mset xs))
   + image_mset (\<lambda>e. (newDate (time e + 3600000), ''Gradually rising tide - good for swimming''))
       (filter_mset (\<lambda>e. type e = Low \<and> hoursBetween (getHours tz (newDate (time e + 3600000))) 7 17) (mset xs))"
  by (induction xs) (simp_all add: recommendationsOf_def)

lemma concat_recommendationsOf_Low:
  "concat (map (recommendationsOf tz) xs) =
   concat (map (recommendationsOf tz) (filter (\<lambda>e. type e = Low) xs))"
  by (induction xs) (simp_all add: recommendationsOf_def)

text \<open>For a valid date the test on \<open>getHours\<close> is a test on the local time of day: hours
  \<open>lo .. hi\<close> are the clock times from \<open>lo\<close>:00:00.000 to \<open>hi\<close>:59:59.999.\<close>

lemma hour_window_arith:
  fixes q r lo hi :: int
  assumes "0 \<le> r" "r < 3600000"
  shows "lo \<le> q \<and> q \<le> hi \<longleftrightarrow>
        lo * 3600000 \<le> 3600000 * q + r \<and> 3600000 * q + r < (hi + 1) * 3600000"
proof
  assume "lo \<le> q \<and> q \<le> hi"
  then have 1: "lo \<le> q" and 2: "q \<le> hi" by simp_all
  from 1 have "lo * 3600000 \<le> q * 3600000" by simp
  with assms have a: "lo * 3600000 \<le> 3600000 * q + r" by simp
  from 2 have "(q + 1) * 3600000 \<le> (hi + 1) * 3600000" by simp
  with assms have b: "3600000 * q + r < (hi + 1) * 3600000" by (simp add: algebra_simps)
  from a b show "lo * 3600000 \<le> 3600000 * q + r \<and> 3600000 * q + r < (hi + 1) * 3600000" ..
next
  assume "lo * 3600000 \<le> 3600000 * q + r \<and> 3600000 * q + r < (hi + 1) * 3600000"
  then have h1: "lo * 3600000 \<le> 3600000 * q + r" and h2: "3600000 * q + r < (hi + 1) * 3600000"
    by simp_all
  from h1 assms have "lo * 3600000 < (q + 1) * 3600000" by (simp add: algebra_simps)
  then have 1: "lo < q + 1" by simp
  from h2 assms have "q * 3600000 < (hi + 1) * 3600000" by (simp add: algebra_simps)
  then have 2: "q < hi + 1" by simp
  from 1 2 show "lo \<le> q \<and> q \<le> hi" by simp
qed

lemma hoursBetween_clock:
  "hoursBetween (getHours tz (newDate t)) lo hi \<longleftrightarrow>
     \<bar>t\<bar> \<le> 8640000000000000 \<and>
     lo * 3600000 \<le> (t + tz t) mod 86400000 \<and> (t + tz t) mod 86400000 < (hi + 1) * 3600000"
proof -
  define x where "x = t + tz t"
  have m: "x mod 86400000 = 3600000 * (x div 3600000 mod 24) + x mod 3600000"
    using zmod_zmult2_eq[of 24 x 3600000] by simp
  have r: "0 \<le> x mod 3600000" "x mod 3600000 < 3600000" by simp_all
  have "lo \<le> x div 3600000 mod 24 \<and> x div 3600000 mod 24 \<le> hi \<longleftrightarrow>
        lo * 3600000 \<le> x mod 86400000 \<and> x mod 86400000 < (hi + 1) * 3600000"
    unfolding m by (rule hour_window_arith[OF r])
  then show ?thesis
    by (simp add: hoursBetween_def getHours_def newDate_def x_def)
qed

text \<open>
  Claim C3, as stated, reads the windows as clock times \<open>[06:00, 18:00]\<close> and
  \<open>[07:00, 17:00]\<close>. The source compares the hour component only
  (\<open>getHours() <= 18\<close>): a Low extreme on Friday 3 January 2025 at 18:30 (UTC as local
  time) gets the daylight recommendation although 18:30 is outside \<open>[06:00, 18:00]\<close>.
\<close>

theorem getBestFridayVisitTimes_window_counterexample:
  "getBestFridayVisitTimes (\<lambda>t. 0) [\<lparr>time = 1735929000000, height = 3 / 10, type = Low\<rparr>]
     = [(Some 1735929000000, ''Low tide during daylight hours - ideal for beach activities'')]
   \<and> getDay (\<lambda>t. 0) (newDate 1735929000000) = Some 5
   \<and> \<not> spec_inClockWindow (\<lambda>t. 0) 1735929000000 6 18"
  by (simp add: getBestFridayVisitTimes_def getDay_def getHours_def newDate_def
        hoursBetween_def spec_inClockWindow_def Let_def)

text \<open>
  Claim C3, amended. The recommendations are, as a multiset, exactly: one at the extreme's
  own time with the reason "ideal for beach activities" for each Low extreme on a Friday
  whose local hour of day is from 6 to 18 (local time in \<open>[06:00, 19:00)\<close>), and one at the
  extreme's time plus one hour with the reason "good for swimming" for each Low extreme on
  a Friday for which the local hour of day of that later time is from 7 to 17 (local
  time in \<open>[07:00, 18:00)\<close>). High extremes never produce a recommendation: removing them
  from the input does not change the result, and a list of High extremes gives none.
\<close>

theorem getBestFridayVisitTimes_exact:
  "mset (getBestFridayVisitTimes tz es) =
     image_mset (\<lambda>e. (newDate (time e), ''Low tide during daylight hours - ideal for beach activities''))
       (filter_mset (\<lambda>e. getDay tz (newDate (time e)) = Some 5 \<and> type e = Low \<and>
                         hoursBetween (getHours tz (newDate (time e))) 6 18) (mset es))
   + image_mset (\<lambda>e. (newDate (time e + 3600000), ''Gradually rising tide - good for swimming''))
       (filter_mset (\<lambda>e. getDay tz (newDate (time e)) = Some 5 \<and> type e = Low \<and>
                         hoursBetween (getHours tz (newDate (time e + 3600000))) 7 17) (mset es))
   \<and> getBestFridayVisitTimes tz es = getBestFridayVisitTimes tz (filter (\<lambda>e. type e = Low) es)
   \<and> getBestFridayVisitTimes tz (filter (\<lambda>e. type e = High) es) = []"
proof -
  let ?fri = "\<lambda>e::TideExtreme. getDay tz (newDate (time e)) = Some 5"
  have a: "mset (getBestFridayVisitTimes tz es) =
     image_mset (\<lambda>e. (newDate (time e), ''Low tide during daylight hours - ideal for beach activities''))
       (filter_mset (\<lambda>e. getDay tz (newDate (time e)) = Some 5 \<and> type e = Low \<and>
                         hoursBetween (getHours tz (newDate (time e))) 6 18) (mset es))
   + image_mset (\<lambda>e. (newDate (time e + 3600000), ''Gradually rising tide - good for swimming''))
       (filter_mset (\<lambda>e. getDay tz (newDate (time e)) = Some 5 \<and> type e = Low \<and>
                         hoursBetween (getHours tz (newDate (time e + 3600000))) 7 17) (mset es))"
    unfolding getBestFridayVisitTimes_eq mset_concat_recommendationsOf
    by (simp add: filter_filter_mset conj_commute conj_left_commute)
  have b: "getBestFridayVisitTimes tz es = getBestFridayVisitTimes tz (filter (\<lambda>e. type e = Low) es)" for es
  proof -
    have "getBestFridayVisitTimes tz es =
        concat (map (recommendationsOf tz) (filter (\<lambda>e. type e = Low) (sort_key time (filter ?fri es))))"
      unfolding getBestFridayVisitTimes_eq by (rule concat_recommendationsOf_Low)
    also have "filter (\<lambda>e. type e = Low) (sort_key time (filter ?fri es)) =
               sort_key time (filter ?fri (filter (\<lambda>e. type e = Low) es))"
      by (simp add: filter_sort conj_commute)
    finally show ?thesis unfolding getBestFridayVisitTimes_eq .
  qed
  have c: "getBestFridayVisitTimes tz (filter (\<lambda>e. type e = High) es) = []"
  proof -
    have "filter (\<lambda>e. type e = Low) (filter (\<lambda>e. type e = High) es) = []"
      by (induction es) simp_all
    then show ?thesis
      using b[of "filter (\<lambda>e. type e = High) es"]
      by (simp add: getBestFridayVisitTimes_eq)
  qed
  show ?thesis by (intro conjI a b c)
qed

end
